theory Spec2Isabelle
  imports Complex_Main
begin

section \<open>The aruco\_ros2 node: messages, state and effects\<close>

text \<open>
  The node of \<^verbatim>\<open>aruco_ros2.cpp\<close> is a class with two subscriptions (images, camera
  calibration), three publishers and a transform broadcaster. The embedding keeps the
  members the callbacks read or write as a record, and returns what a callback sends
  (logs, broadcasts, publications) as a list of events in program order.

  Doubles are only stored and copied by the embedded code (the arithmetic on them is
  done by OpenCV and tf2, which enter as parameters). Those of the calibration, of the
  parameters and of the pixel positions are written as \<^typ>\<open>real\<close>. The entries of a
  pose, and of the transforms computed from poses, have the type \<open>double\<close> below,
  which keeps the values of an IEEE double that are not numbers: a pose estimate can
  hold them, and the code never looks at the entries of a pose. Time stamps are clock
  readings in nanoseconds.
\<close>

datatype double = Finite real | PlusInfinity | MinusInfinity | NaN

type_synonym time = nat
type_synonym vec3 = "double \<times> double \<times> double"
type_synonym quat = "double \<times> double \<times> double \<times> double"

definition vec :: "real \<Rightarrow> real \<Rightarrow> real \<Rightarrow> vec3" where
  "vec x y z = (Finite x, Finite y, Finite z)"

definition identity_rotation :: quat where
  "identity_rotation = (Finite 0, Finite 0, Finite 0, Finite 1)"

record header =
  stamp :: time
  frame_id :: string

text \<open>\<^verbatim>\<open>geometry_msgs::msg::Transform\<close>; the quaternion is (x, y, z, w).\<close>

record transform =
  translation :: vec3
  rotation :: quat

record transform_stamped =
  ts_header :: header
  child_frame_id :: string
  ts_transform :: transform

record pose =
  position :: vec3
  orientation :: quat

text \<open>\<^verbatim>\<open>aruco_ros2_msgs::msg::Marker\<close> and \<^verbatim>\<open>MarkerArray\<close>.\<close>

record marker =
  m_header :: header
  marker_id :: int
  m_pose :: pose
  pixel_x :: real
  pixel_y :: real

record marker_array =
  ma_header :: header
  markers :: "marker list"

text \<open>
  \<^verbatim>\<open>sensor_msgs::msg::CameraInfo\<close>: \<open>k\<close> is a \<^verbatim>\<open>std::array<double, 9>\<close>, \<open>d\<close> a
  \<^verbatim>\<open>std::vector<double>\<close> of any length.
\<close>

record camera_info =
  msg_width :: nat
  msg_height :: nat
  msg_k :: "real list"
  msg_d :: "real list"

text \<open>
  An OpenCV image: its pixel data, and the axes \<^verbatim>\<open>cv::aruco::drawAxis\<close> has drawn on it
  (rotation vector, translation vector, axis length), in drawing order.
\<close>

record cv_image =
  pixels :: "nat list"
  axes :: "(vec3 \<times> vec3 \<times> real) list"

record image_msg =
  im_header :: header
  encoding :: string
  im_data :: cv_image

datatype level = INFO | WARN | ERROR

datatype event =
    Log level string
  | Subscribe string
  | Advertise string
  | CreateBroadcaster
  | SendTransform transform_stamped
  | PublishImage image_msg
  | PublishMarkers marker_array

text \<open>The enumeration \<^verbatim>\<open>cv::aruco::PREDEFINED_DICTIONARY_NAME\<close>.\<close>

datatype dictionary_name =
    DICT_4X4_50 | DICT_4X4_100 | DICT_4X4_250 | DICT_4X4_1000
  | DICT_5X5_50 | DICT_5X5_100 | DICT_5X5_250 | DICT_5X5_1000
  | DICT_6X6_50 | DICT_6X6_100 | DICT_6X6_250 | DICT_6X6_1000
  | DICT_7X7_50 | DICT_7X7_100 | DICT_7X7_250 | DICT_7X7_1000
  | DICT_ARUCO_ORIGINAL
  | DICT_APRILTAG_16h5 | DICT_APRILTAG_25h9 | DICT_APRILTAG_36h10 | DICT_APRILTAG_36h11

text \<open>
  A \<^verbatim>\<open>cv::Mat\<close> of doubles as the calibration callback builds it: not yet assigned, a
  matrix that owns its entries, or a header over a buffer it does not own. The
  constructor \<^verbatim>\<open>cv::Mat(rows, cols, type, data)\<close> of line 73 copies nothing: the matrix
  borrows the \<open>k\<close> array of the message and is valid only while the message lives.
  \<open>Borrowed\<close> holds what that array held when the header was made; no function of
  the embedding reads it back.
\<close>

datatype mat = Unassigned | Owned "real list" | Borrowed "real list"

text \<open>The members of \<^verbatim>\<open>ArucoRos2Node\<close> (lines 296 to 324) that the callbacks use.\<close>

record node =
  marker_size :: real
  camera_frame :: string
  image_topic :: string
  camera_info_topic :: string
  dictionary :: string
  aruco_dict :: "dictionary_name option"
  camera_matrix :: mat
  camera_distortion :: "real list"
  received_camera_info :: bool

text \<open>
  The five parameters as the launch configuration overrides them (\<open>None\<close>: not
  overridden, \<^verbatim>\<open>declare_parameter\<close> then yields its default).
\<close>

record params =
  p_marker_size :: "real option"
  p_camera_frame :: "string option"
  p_image_topic :: "string option"
  p_camera_info_topic :: "string option"
  p_dictionary :: "string option"

definition get_parameter :: "'a option \<Rightarrow> 'a \<Rightarrow> 'a" where
  "get_parameter override dflt = (case override of None \<Rightarrow> dflt | Some v \<Rightarrow> v)"

text \<open>
  The constructor (lines 21 to 40). Its five log lines print the parameters; the digits
  of the marker size are left out of the first.
\<close>

definition ArucoRos2Node :: "params \<Rightarrow> event list \<times> node" where
  "ArucoRos2Node p =
     (let n = \<lparr> marker_size = get_parameter (p_marker_size p) (1 / 10),
                camera_frame = get_parameter (p_camera_frame p) ''camera_rgb_optical_frame'',
                image_topic = get_parameter (p_image_topic p) ''/camera/color/image_raw'',
                camera_info_topic = get_parameter (p_camera_info_topic p) ''/camera/color/camera_info'',
                dictionary = get_parameter (p_dictionary p) ''DICT_4X4_1000'',
                aruco_dict = None,
                camera_matrix = Unassigned,
                camera_distortion = [],
                received_camera_info = False \<rparr>
      in ([Log INFO ''marker_size: '', Log INFO (''camera_frame: '' @ camera_frame n),
           Log INFO (''image_topic: '' @ image_topic n),
           Log INFO (''camera_info_topic: '' @ camera_info_topic n),
           Log INFO (''dictionary: '' @ dictionary n)], n))"

section \<open>Calibration: \<^verbatim>\<open>camera_info_callback\<close>\<close>

text \<open>
  \<^verbatim>\<open>cv::Mat::zeros(1, cols, CV_64F)\<close> and \<^verbatim>\<open>cv::Mat(1, cols, CV_64F)\<close>, one row of
  doubles. The second leaves its entries uninitialised; the embedding fills them with
  zero, and \<open>copy_coefficients_overwrites\<close> below shows for any initial content that
  the loop of lines 78 to 81 replaces every entry.
\<close>

definition mat_zeros :: "nat \<Rightarrow> real list" where
  "mat_zeros cols = replicate cols 0"

definition mat_alloc :: "nat \<Rightarrow> real list" where
  "mat_alloc cols = replicate cols 0"

text \<open>The loop of lines 78 to 81, from index \<open>i\<close> on.\<close>

function copy_coefficients :: "real list \<Rightarrow> nat \<Rightarrow> real list \<Rightarrow> real list" where
  "copy_coefficients ds i row =
     (if i < length ds then copy_coefficients ds (Suc i) (row[i := ds ! i]) else row)"
  by pat_completeness auto
termination
  by (relation "measure (\<lambda>(ds, i, row). length ds - i)") auto

declare copy_coefficients.simps [simp del]

text \<open>
  Lines 73 to 82: the calibration is replaced by the message's. The matrix becomes a
  header over the message's \<open>k\<close>; the distortion row is a matrix of its own, filled
  entry by entry.
\<close>

definition store_calibration :: "node \<Rightarrow> camera_info \<Rightarrow> node" where
  "store_calibration n msg =
     (let n1 = n\<lparr> camera_matrix := Borrowed (msg_k msg) \<rparr>;
          n2 = n1\<lparr> camera_distortion := mat_zeros 4 \<rparr>
      in if msg_d msg \<noteq> []
         then n2\<lparr> camera_distortion :=
                    copy_coefficients (msg_d msg) 0 (mat_alloc (length (msg_d msg))) \<rparr>
         else n2)"

text \<open>
  \<^verbatim>\<open>msg->d[i]\<close>: \<^verbatim>\<open>std::vector::operator[]\<close> checks nothing, and an index at or beyond
  \<^verbatim>\<open>size()\<close> is undefined behaviour. The read returns \<open>None\<close> there.
\<close>

definition vector_at :: "real list \<Rightarrow> nat \<Rightarrow> real option" where
  "vector_at v i = (if i < length v then Some (v ! i) else None)"

text \<open>
  Lines 71 to 98. The callback faults when a read is out of bounds; the fault names the
  indices read beyond the end of \<open>d\<close>. The logging statement of lines 87 to 95 reads
  \<^verbatim>\<open>msg->d[0]\<close> to \<^verbatim>\<open>msg->d[4]\<close> (and \<^verbatim>\<open>msg->k[0]\<close> to \<^verbatim>\<open>msg->k[8]\<close>, which the array
  type keeps in bounds) when it evaluates its arguments, as it does at the default log
  level. The numbers it prints are left out of the logged text, and a faulting run
  keeps no events. The reads of the copy loop stay below \<^verbatim>\<open>d.size()\<close> by the loop
  condition.
\<close>

datatype fault = OutOfBounds "nat list"

definition logged_indices :: "nat list" where
  "logged_indices = [0, 1, 2, 3, 4]"

definition camera_info_callback :: "node \<Rightarrow> camera_info \<Rightarrow> fault + event list \<times> node" where
  "camera_info_callback n msg =
     (let n1 = store_calibration n msg
      in if \<not> received_camera_info n1
         then (case filter (\<lambda>i. vector_at (msg_d msg) i = None) logged_indices of
                 [] \<Rightarrow> Inr ([Log INFO ''Received camera info.'', Log INFO ''Camera Info:''],
                            n1\<lparr> received_camera_info := True \<rparr>)
               | bad \<Rightarrow> Inl (OutOfBounds bad))
         else Inr ([], n1))"

section \<open>Start-up: \<^verbatim>\<open>dictNameToEnum\<close>, \<^verbatim>\<open>initialize\<close> and \<^verbatim>\<open>main\<close>\<close>

text \<open>
  The table of lines 263 to 285, in the order written. The keys are distinct, so the
  \<^verbatim>\<open>std::unordered_map\<close> built from it holds every entry.
\<close>

definition dict_name_map :: "(string \<times> dictionary_name) list" where
  "dict_name_map =
     [(''DICT_4X4_50'', DICT_4X4_50),
      (''DICT_4X4_100'', DICT_4X4_100),
      (''DICT_4X4_250'', DICT_4X4_250),
      (''DICT_4X4_1000'', DICT_4X4_1000),
      (''DICT_5X5_50'', DICT_5X5_50),
      (''DICT_5X5_100'', DICT_5X5_100),
      (''DICT_5X5_250'', DICT_5X5_250),
      (''DICT_5X5_1000'', DICT_5X5_1000),
      (''DICT_6X6_50'', DICT_6X6_50),
      (''DICT_6X6_100'', DICT_6X6_100),
      (''DICT_6X6_250'', DICT_6X6_250),
      (''DICT_6X6_1000'', DICT_6X6_1000),
      (''DICT_7X7_50'', DICT_7X7_50),
      (''DICT_7X7_100'', DICT_7X7_100),
      (''DICT_7X7_250'', DICT_7X7_250),
      (''DICT_7X7_1000'', DICT_7X7_1000),
      (''DICT_ARUCO_ORIGINAL'', DICT_ARUCO_ORIGINAL),
      (''DICT_APRILTAG_16h5'', DICT_APRILTAG_16h5),
      (''DICT_APRILTAG_25h9'', DICT_APRILTAG_25h9),
      (''DICT_APRILTAG_36h10'', DICT_APRILTAG_36h10),
      (''DICT_APRILTAG_36h11'', DICT_APRILTAG_36h11)]"

datatype init_error = InvalidArgument string

text \<open>Lines 261 to 294: \<^verbatim>\<open>find\<close>, then the entry or \<^verbatim>\<open>std::invalid_argument\<close>.\<close>

definition dictNameToEnum :: "string \<Rightarrow> init_error + dictionary_name" where
  "dictNameToEnum dict_name =
     (case map_of dict_name_map dict_name of
        Some e \<Rightarrow> Inr e
      | None \<Rightarrow> Inl (InvalidArgument ''Invalid dictionary''))"

text \<open>
  Lines 42 to 68, statement by statement. The subscriptions, the publishers and the
  broadcaster are created before the dictionary name is looked up in line 66; the
  events sent up to the exception stay sent. \<^verbatim>\<open>getPredefinedDictionary\<close> accepts every
  value of the enumeration.
\<close>

definition initialize :: "node \<Rightarrow> event list \<times> (init_error + node)" where
  "initialize n =
     (let sent = [Log INFO ''Initializing.'',
                  Subscribe (image_topic n),
                  Advertise ''aruco_marker_info'',
                  Advertise ''/aruco/markers'',
                  Subscribe (camera_info_topic n),
                  Advertise ''/aruco/result'',
                  CreateBroadcaster]
      in case dictNameToEnum (dictionary n) of
           Inl e \<Rightarrow> (sent, Inl e)
         | Inr e \<Rightarrow> (sent, Inr (n\<lparr> aruco_dict := Some e \<rparr>)))"

text \<open>
  \<^verbatim>\<open>main\<close> up to \<^verbatim>\<open>rclcpp::spin\<close> (lines 327 to 332): the events of construction and
  initialisation, and the node that starts to spin. Nothing catches the exception of
  \<^verbatim>\<open>initialize\<close>, so the process ends there and no callback ever runs: \<open>None\<close>.
\<close>

definition main_startup :: "params \<Rightarrow> event list \<times> node option" where
  "main_startup p =
     (let (sent0, n) = ArucoRos2Node p;
          (sent1, r) = initialize n
      in case r of
           Inl e \<Rightarrow> (sent0 @ sent1, None)
         | Inr n' \<Rightarrow> (sent0 @ sent1, Some n'))"

section \<open>Frames: \<^verbatim>\<open>image_callback\<close>\<close>

text \<open>
  \<^verbatim>\<open>std::to_string\<close> of an \<^verbatim>\<open>int\<close>: the decimal digits, after a minus sign for a
  negative number.
\<close>

definition digit_char :: "nat \<Rightarrow> char" where
  "digit_char n = ''0123456789'' ! n"

function string_of_nat :: "nat \<Rightarrow> string" where
  "string_of_nat n =
     (if n < 10 then [digit_char n]
      else string_of_nat (n div 10) @ [digit_char (n mod 10)])"
  by pat_completeness auto
termination
  by (relation "measure id") auto

declare string_of_nat.simps [simp del]

definition to_string :: "int \<Rightarrow> string" where
  "to_string i =
     (if i < 0 then CHR ''-'' # string_of_nat (nat (- i)) else string_of_nat (nat i))"

text \<open>
  The arithmetic the callback delegates: \<^verbatim>\<open>cv::Rodrigues\<close> followed by
  \<^verbatim>\<open>tf2::Matrix3x3::getRotation\<close> (lines 152 to 159), and the product of two
  \<^verbatim>\<open>tf2::Transform\<close>s read back as origin and rotation (lines 173 to 186). Both are
  library code on doubles, so the callback is embedded for any two such functions.
\<close>

record library =
  rodrigues_rotation :: "vec3 \<Rightarrow> quat"
  tf_multiply :: "transform \<Rightarrow> transform \<Rightarrow> transform"

text \<open>
  One detected marker: its id and first corner from \<^verbatim>\<open>detectMarkers\<close>, and its rows
  of \<^verbatim>\<open>rvecs\<close> and \<^verbatim>\<open>tvecs\<close> from \<^verbatim>\<open>estimatePoseSingleMarkers\<close> (\<open>None\<close>: the row is
  empty, \<^verbatim>\<open>Mat::empty()\<close>). Both library calls return their results index-aligned,
  which is why one record per index stands for the four parallel containers.
\<close>

record detection =
  det_id :: int
  first_corner :: "real \<times> real"
  rvec :: "vec3 option"
  tvec :: "vec3 option"

text \<open>
  An incoming image with everything the environment answers while the callback runs
  on it: the decoded image (\<open>None\<close>: \<^verbatim>\<open>cv_bridge::Exception\<close>), the detections, the
  result of \<^verbatim>\<open>lookupTransform("map", camera_frame_)\<close> in iteration \<open>i\<close> of the loop
  (\<open>None\<close>: \<^verbatim>\<open>tf2::TransformException\<close>), the clock reading of line 110 and the clock
  reading of line 145 in iteration \<open>i\<close>.
\<close>

record frame =
  msg_header :: header
  toCvCopy :: "cv_image option"
  detected :: "detection list"
  lookupTransform :: "nat \<Rightarrow> transform option"
  now_array :: time
  now_marker :: "nat \<Rightarrow> time"

text \<open>Lines 144 to 164: the transform from the camera frame to the marker's frame.\<close>

definition marker_transform ::
  "library \<Rightarrow> node \<Rightarrow> time \<Rightarrow> int \<Rightarrow> vec3 \<Rightarrow> vec3 \<Rightarrow> transform_stamped" where
  "marker_transform L n now mid rv tv =
     \<lparr> ts_header = \<lparr> stamp = now, frame_id = camera_frame n \<rparr>,
       child_frame_id = ''aruco_marker_'' @ to_string mid,
       ts_transform = \<lparr> translation = tv, rotation = rodrigues_rotation L rv \<rparr> \<rparr>"

text \<open>Lines 173 to 195: the marker's pose in the map frame and its record.\<close>

definition marker_record ::
  "library \<Rightarrow> frame \<Rightarrow> detection \<Rightarrow> transform \<Rightarrow> transform_stamped \<Rightarrow> marker" where
  "marker_record L fr dt map_to_camera mt =
     (let tf_map_to_marker = tf_multiply L map_to_camera (ts_transform mt)
      in \<lparr> m_header = \<lparr> stamp = stamp (msg_header fr), frame_id = ''map'' \<rparr>,
           marker_id = det_id dt,
           m_pose = \<lparr> position = translation tf_map_to_marker,
                      orientation = rotation tf_map_to_marker \<rparr>,
           pixel_x = fst (first_corner dt),
           pixel_y = snd (first_corner dt) \<rparr>)"

text \<open>Line 201: \<^verbatim>\<open>drawAxis\<close> adds one axis to the image.\<close>

definition drawAxis :: "cv_image \<Rightarrow> vec3 \<Rightarrow> vec3 \<Rightarrow> real \<Rightarrow> cv_image" where
  "drawAxis img rv tv len = img\<lparr> axes := axes img @ [(rv, tv, len)] \<rparr>"

text \<open>
  The locals the loop of lines 131 to 203 changes (the image, \<^verbatim>\<open>marker_array.markers\<close>)
  and the events sent so far. The loop ends in one of three ways: its condition
  fails, line 140 returns from the callback, or line 171 throws.
\<close>

record loop_state =
  ls_image :: cv_image
  ls_markers :: "marker list"
  ls_events :: "event list"

datatype loop_exit = LoopDone | PoseEmpty | LookupThrew

function marker_loop ::
  "library \<Rightarrow> node \<Rightarrow> frame \<Rightarrow> nat \<Rightarrow> loop_state \<Rightarrow> loop_exit \<times> loop_state" where
  "marker_loop L n fr i s =
     (if i < length (detected fr) then
        (let dt = detected fr ! i
         in case (tvec dt, rvec dt) of
              (Some tv, Some rv) \<Rightarrow>
                (let mt = marker_transform L n (now_marker fr i) (det_id dt) rv tv;
                     s1 = s\<lparr> ls_events := ls_events s @
                              [SendTransform mt,
                               Log INFO (''Detected marker '' @ to_string (det_id dt))] \<rparr>
                 in case lookupTransform fr i of
                      None \<Rightarrow> (LookupThrew, s1)
                    | Some map_to_camera \<Rightarrow>
                        marker_loop L n fr (Suc i)
                          (s1\<lparr> ls_markers := ls_markers s1 @
                                   [marker_record L fr dt map_to_camera mt],
                               ls_image := drawAxis (ls_image s1) rv tv
                                             (marker_size n * (1 / 2)) \<rparr>))
            | _ \<Rightarrow>
                (PoseEmpty,
                 s\<lparr> ls_events := ls_events s @
                      [Log WARN ''Pose estimation failed for marker.''] \<rparr>))
      else (LoopDone, s))"
  by pat_completeness auto
termination
  by (relation "measure (\<lambda>(L, n, fr, i, s). length (detected fr) - i)") auto

declare marker_loop.simps [simp del]

text \<open>
  Lines 101 to 221. The two publications of lines 207 to 211 stand inside the
  \<^verbatim>\<open>try\<close> block after the loop: they are reached when the loop runs to its end, and
  neither by the \<^verbatim>\<open>return\<close> of line 140 nor by an exception, which the handlers of
  lines 213 to 220 only log. The callback assigns no member of the node.
\<close>

definition image_callback :: "library \<Rightarrow> node \<Rightarrow> frame \<Rightarrow> event list" where
  "image_callback L n fr =
     (if \<not> received_camera_info n then [Log INFO ''Waiting for camera info.'']
      else
        (let marker_array_header = \<lparr> stamp = now_array fr, frame_id = ''map'' \<rparr>
         in case toCvCopy fr of
              None \<Rightarrow> [Log ERROR ''CV Bridge exception'']
            | Some img \<Rightarrow>
                (let s0 = \<lparr> ls_image = img, ls_markers = [], ls_events = [] \<rparr>;
                     (ex, s) = (if detected fr \<noteq> [] then marker_loop L n fr 0 s0
                                else (LoopDone, s0))
                 in case ex of
                      LoopDone \<Rightarrow>
                        ls_events s @
                        [PublishImage \<lparr> im_header = msg_header fr, encoding = ''bgr8'',
                                        im_data = ls_image s \<rparr>,
                         PublishMarkers \<lparr> ma_header = marker_array_header,
                                          markers = ls_markers s \<rparr>]
                    | PoseEmpty \<Rightarrow> ls_events s
                    | LookupThrew \<Rightarrow> ls_events s @ [Log WARN ''TF2 exception''])))"

section \<open>Reading a list of events\<close>

fun broadcasts :: "event list \<Rightarrow> transform_stamped list" where
  "broadcasts [] = []"
| "broadcasts (SendTransform t # es) = t # broadcasts es"
| "broadcasts (e # es) = broadcasts es"

fun published_markers :: "event list \<Rightarrow> marker_array list" where
  "published_markers [] = []"
| "published_markers (PublishMarkers a # es) = a # published_markers es"
| "published_markers (e # es) = published_markers es"

fun published_images :: "event list \<Rightarrow> image_msg list" where
  "published_images [] = []"
| "published_images (PublishImage m # es) = m # published_images es"
| "published_images (e # es) = published_images es"

fun subscriptions :: "event list \<Rightarrow> string list" where
  "subscriptions [] = []"
| "subscriptions (Subscribe t # es) = t # subscriptions es"
| "subscriptions (e # es) = subscriptions es"

fun warnings :: "event list \<Rightarrow> string list" where
  "warnings [] = []"
| "warnings (Log WARN m # es) = m # warnings es"
| "warnings (e # es) = warnings es"

text \<open>
  What pass \<open>j\<close> of the loop broadcasts and what it adds to the array, in terms of the
  callback's inputs: the properties that do not depend on the library arithmetic.
\<close>

definition broadcast_of :: "node \<Rightarrow> frame \<Rightarrow> nat \<Rightarrow> transform_stamped \<Rightarrow> bool" where
  "broadcast_of n fr j b \<longleftrightarrow>
     ts_header b = \<lparr> stamp = now_marker fr j, frame_id = camera_frame n \<rparr> \<and>
     child_frame_id b = ''aruco_marker_'' @ to_string (det_id (detected fr ! j)) \<and>
     tvec (detected fr ! j) = Some (translation (ts_transform b))"

definition record_of :: "frame \<Rightarrow> nat \<Rightarrow> marker \<Rightarrow> bool" where
  "record_of fr j m \<longleftrightarrow>
     m_header m = \<lparr> stamp = stamp (msg_header fr), frame_id = ''map'' \<rparr> \<and>
     marker_id m = det_id (detected fr ! j) \<and>
     pixel_x m = fst (first_corner (detected fr ! j)) \<and>
     pixel_y m = snd (first_corner (detected fr ! j))"

text \<open>
  The accepted names as the specification counts them: sixteen variants by size (4x4 to
  7x7) and number of markers, the original dictionary, and four AprilTag variants.
\<close>

definition spec_dictionary_names :: "string list" where
  "spec_dictionary_names =
     concat (map (\<lambda>size. map (\<lambda>count. ''DICT_'' @ size @ ''_'' @ count)
                             [''50'', ''100'', ''250'', ''1000''])
                 [''4X4'', ''5X5'', ''6X6'', ''7X7''])
     @ [''DICT_ARUCO_ORIGINAL'']
     @ map (\<lambda>v. ''DICT_APRILTAG_'' @ v) [''16h5'', ''25h9'', ''36h10'', ''36h11'']"

section \<open>Example inputs\<close>

text \<open>
  A stand-in for the library: every rotation vector is read as the identity rotation,
  and the product returns its second factor, as the product with the identity
  transform as first factor does.
\<close>

definition example_library :: library where
  "example_library =
     \<lparr> rodrigues_rotation = (\<lambda>rv. identity_rotation),
       tf_multiply = (\<lambda>a b. \<lparr> translation = translation b, rotation = rotation b \<rparr>) \<rparr>"

definition default_params :: params where
  "default_params =
     \<lparr> p_marker_size = None, p_camera_frame = None, p_image_topic = None,
       p_camera_info_topic = None, p_dictionary = None \<rparr>"

definition calibrated_node :: node where
  "calibrated_node =
     \<lparr> marker_size = 1 / 10, camera_frame = ''camera_rgb_optical_frame'',
       image_topic = ''/camera/color/image_raw'',
       camera_info_topic = ''/camera/color/camera_info'',
       dictionary = ''DICT_4X4_1000'', aruco_dict = Some DICT_4X4_1000,
       camera_matrix = Borrowed [525, 0, 320, 0, 525, 240, 0, 0, 1],
       camera_distortion = [1 / 10, - (1 / 5), 0, 0, 1 / 20],
       received_camera_info = True \<rparr>"

definition example_info :: camera_info where
  "example_info =
     \<lparr> msg_width = 640, msg_height = 480,
       msg_k = [525, 0, 320, 0, 525, 240, 0, 0, 1],
       msg_d = [1 / 10, - (1 / 5), 0, 0, 1 / 20] \<rparr>"

definition info_no_distortion :: camera_info where
  "info_no_distortion =
     \<lparr> msg_width = 640, msg_height = 480,
       msg_k = [525, 0, 320, 0, 525, 240, 0, 0, 1], msg_d = [] \<rparr>"

definition two_markers :: "detection list" where
  "two_markers =
     [\<lparr> det_id = 7, first_corner = (100, 120), rvec = Some (vec 0 0 0), tvec = Some (vec 0 0 1) \<rparr>,
      \<lparr> det_id = 12, first_corner = (300, 80), rvec = Some (vec 0 0 0), tvec = Some (vec 1 0 2) \<rparr>]"

definition example_frame :: "detection list \<Rightarrow> (nat \<Rightarrow> transform option) \<Rightarrow> frame" where
  "example_frame ds lk =
     \<lparr> msg_header = \<lparr> stamp = 1000, frame_id = ''camera_rgb_optical_frame'' \<rparr>,
       toCvCopy = Some \<lparr> pixels = [0, 0, 0], axes = [] \<rparr>,
       detected = ds,
       lookupTransform = lk,
       now_array = 1500,
       now_marker = (\<lambda>i. 1600 + i) \<rparr>"

definition map_to_camera_example :: transform where
  "map_to_camera_example = \<lparr> translation = vec 0 0 0, rotation = identity_rotation \<rparr>"

definition second_pose_empty :: "detection list" where
  "second_pose_empty =
     [\<lparr> det_id = 7, first_corner = (100, 120), rvec = Some (vec 0 0 0), tvec = Some (vec 0 0 1) \<rparr>,
      \<lparr> det_id = 12, first_corner = (300, 80), rvec = Some (vec 0 0 0), tvec = None \<rparr>,
      \<lparr> det_id = 3, first_corner = (50, 60), rvec = Some (vec 0 0 0), tvec = Some (vec 0 1 1) \<rparr>]"

text \<open>
  A pose estimate that is not a number in any entry: the rows exist, so they are not
  empty, but they are degenerate in the sense of the specification's glossary.
\<close>

definition nan_pose_marker :: "detection list" where
  "nan_pose_marker =
     [\<lparr> det_id = 7, first_corner = (100, 120),
        rvec = Some (NaN, NaN, NaN), tvec = Some (NaN, NaN, NaN) \<rparr>]"

definition bad_dictionary_params :: params where
  "bad_dictionary_params = default_params\<lparr> p_dictionary := Some ''NOT_A_REAL_DICT'' \<rparr>"

lemmas example_defs =
  calibrated_node_def example_frame_def two_markers_def second_pose_empty_def
  nan_pose_marker_def
  example_library_def map_to_camera_example_def default_params_def
  example_info_def info_no_distortion_def bad_dictionary_params_def

section \<open>Lemmas on the calibration callback\<close>


lemma copy_coefficients_from:
  "length row = length ds \<Longrightarrow> i \<le> length ds \<Longrightarrow>
   copy_coefficients ds i row = take i row @ drop i ds"
proof (induction ds i row rule: copy_coefficients.induct)
  case (1 ds i row)
  show ?case
  proof (cases "i < length ds")
    case True
    have step: "copy_coefficients ds i row = copy_coefficients ds (Suc i) (row[i := ds ! i])"
      using True by (subst copy_coefficients.simps) simp
    have "copy_coefficients ds (Suc i) (row[i := ds ! i])
            = take (Suc i) (row[i := ds ! i]) @ drop (Suc i) ds"
      using "1.IH" [OF True] "1.prems" True by simp
    also have "\<dots> = take i row @ drop i ds"
      using True "1.prems"
      by (simp add: take_Suc_conv_app_nth Cons_nth_drop_Suc)
    finally show ?thesis using step by simp
  next
    case False
    then have "i = length ds" using "1.prems" by simp
    then show ?thesis
      using "1.prems" by (subst copy_coefficients.simps) simp
  qed
qed

lemma copy_coefficients_overwrites:
  "length row = length ds \<Longrightarrow> copy_coefficients ds 0 row = ds"
  by (simp add: copy_coefficients_from)

lemma camera_distortion_store_calibration:
  "camera_distortion (store_calibration n msg) =
     (if msg_d msg = [] then [0, 0, 0, 0] else msg_d msg)"
  by (simp add: store_calibration_def mat_zeros_def mat_alloc_def
      copy_coefficients_overwrites numeral_eq_Suc)

lemma received_store_calibration:
  "received_camera_info (store_calibration n msg) = received_camera_info n"
  by (simp add: store_calibration_def Let_def)

lemma camera_info_callback_returns:
  "camera_info_callback n msg = Inr (tr, n') \<Longrightarrow>
   camera_distortion n' = camera_distortion (store_calibration n msg)"
  by (auto simp: camera_info_callback_def Let_def split: if_splits list.splits)

lemma camera_info_callback_faults_iff:
  "(\<exists>f. camera_info_callback n msg = Inl f) \<longleftrightarrow>
   \<not> received_camera_info n \<and> length (msg_d msg) < 5"
  by (auto simp: camera_info_callback_def received_store_calibration vector_at_def
      logged_indices_def Let_def split: list.splits if_splits)

section \<open>Lemmas on start-up\<close>

lemma dict_names: "map fst dict_name_map = spec_dictionary_names"
  by (simp add: dict_name_map_def spec_dictionary_names_def)

lemma spec_dictionary_names_distinct:
  "length spec_dictionary_names = 21 \<and> distinct spec_dictionary_names"
  by (simp add: spec_dictionary_names_def)

lemma dictNameToEnum_accepts:
  "(\<exists>e. dictNameToEnum name = Inr e) \<longleftrightarrow> name \<in> set spec_dictionary_names"
proof -
  have "map_of dict_name_map name = None \<longleftrightarrow> name \<notin> set (map fst dict_name_map)"
    by (simp add: map_of_eq_None_iff)
  then show ?thesis
    unfolding dict_names by (auto simp: dictNameToEnum_def split: option.splits)
qed

lemma dictNameToEnum_rejects:
  "dictNameToEnum name = Inl (InvalidArgument ''Invalid dictionary'') \<longleftrightarrow>
   name \<notin> set spec_dictionary_names"
  using dictNameToEnum_accepts [of name]
  by (auto simp: dictNameToEnum_def split: option.splits)

section \<open>Lemmas on the marker loop\<close>

lemma broadcasts_append [simp]: "broadcasts (a @ b) = broadcasts a @ broadcasts b"
  by (induction a rule: broadcasts.induct) simp_all

lemma published_markers_append [simp]:
  "published_markers (a @ b) = published_markers a @ published_markers b"
  by (induction a rule: published_markers.induct) simp_all

lemma published_images_append [simp]:
  "published_images (a @ b) = published_images a @ published_images b"
  by (induction a rule: published_images.induct) simp_all

lemma warnings_append [simp]: "warnings (a @ b) = warnings a @ warnings b"
  by (induction a rule: warnings.induct) simp_all

lemma marker_loop_end:
  "\<not> i < length (detected fr) \<Longrightarrow> marker_loop L n fr i s = (LoopDone, s)"
  by (subst marker_loop.simps) simp

lemma marker_loop_pose_empty:
  "i < length (detected fr) \<Longrightarrow>
   tvec (detected fr ! i) = None \<or> rvec (detected fr ! i) = None \<Longrightarrow>
   marker_loop L n fr i s =
     (PoseEmpty, s\<lparr> ls_events := ls_events s @ [Log WARN ''Pose estimation failed for marker.''] \<rparr>)"
  by (subst marker_loop.simps) (auto simp: Let_def split: option.splits)

lemma marker_loop_lookup_threw:
  "i < length (detected fr) \<Longrightarrow>
   tvec (detected fr ! i) = Some tv \<Longrightarrow> rvec (detected fr ! i) = Some rv \<Longrightarrow>
   lookupTransform fr i = None \<Longrightarrow>
   marker_loop L n fr i s =
     (LookupThrew,
      s\<lparr> ls_events := ls_events s @
           [SendTransform (marker_transform L n (now_marker fr i) (det_id (detected fr ! i)) rv tv),
            Log INFO (''Detected marker '' @ to_string (det_id (detected fr ! i)))] \<rparr>)"
  by (subst marker_loop.simps) (simp add: Let_def)

lemma marker_loop_next:
  "i < length (detected fr) \<Longrightarrow>
   tvec (detected fr ! i) = Some tv \<Longrightarrow> rvec (detected fr ! i) = Some rv \<Longrightarrow>
   lookupTransform fr i = Some map_to_camera \<Longrightarrow>
   marker_loop L n fr i s =
     marker_loop L n fr (Suc i)
       (s\<lparr> ls_events := ls_events s @
            [SendTransform (marker_transform L n (now_marker fr i) (det_id (detected fr ! i)) rv tv),
             Log INFO (''Detected marker '' @ to_string (det_id (detected fr ! i)))],
          ls_markers := ls_markers s @
            [marker_record L fr (detected fr ! i) map_to_camera
               (marker_transform L n (now_marker fr i) (det_id (detected fr ! i)) rv tv)],
          ls_image := drawAxis (ls_image s) rv tv (marker_size n * (1 / 2)) \<rparr>)"
  by (subst marker_loop.simps) (simp add: Let_def)

text \<open>The four ways one pass of the loop can go.\<close>

lemma marker_loop_cases:
  obtains
    (Done) "\<not> i < length (detected fr)"
  | (Empty) "i < length (detected fr)"
      "tvec (detected fr ! i) = None \<or> rvec (detected fr ! i) = None"
  | (Threw) tv rv where "i < length (detected fr)"
      "tvec (detected fr ! i) = Some tv" "rvec (detected fr ! i) = Some rv"
      "lookupTransform fr i = None"
  | (Next) tv rv map_to_camera where "i < length (detected fr)"
      "tvec (detected fr ! i) = Some tv" "rvec (detected fr ! i) = Some rv"
      "lookupTransform fr i = Some map_to_camera"
  by (cases "i < length (detected fr)"; cases "tvec (detected fr ! i)";
      cases "rvec (detected fr ! i)"; cases "lookupTransform fr i") auto

lemma marker_loop_done_iff:
  "fst (marker_loop L n fr i s) = LoopDone \<longleftrightarrow>
   (\<forall>j. i \<le> j \<and> j < length (detected fr) \<longrightarrow>
      tvec (detected fr ! j) \<noteq> None \<and> rvec (detected fr ! j) \<noteq> None \<and>
      lookupTransform fr j \<noteq> None)"
proof (induction "length (detected fr) - i" arbitrary: i s)
  case 0
  then show ?case by (auto simp: marker_loop_end)
next
  case (Suc m)
  then have lt: "i < length (detected fr)" and m: "m = length (detected fr) - Suc i"
    by simp_all
  show ?case
  proof (cases rule: marker_loop_cases [of i fr])
    case Done
    with lt show ?thesis by simp
  next
    case Empty
    then show ?thesis by (auto simp: marker_loop_pose_empty)
  next
    case (Threw tv rv)
    then show ?thesis by (auto simp: marker_loop_lookup_threw)
  next
    case (Next tv rv map_to_camera)
    have "(\<forall>j. i \<le> j \<and> j < length (detected fr) \<longrightarrow>
             tvec (detected fr ! j) \<noteq> None \<and> rvec (detected fr ! j) \<noteq> None \<and>
             lookupTransform fr j \<noteq> None) \<longleftrightarrow>
          (\<forall>j. Suc i \<le> j \<and> j < length (detected fr) \<longrightarrow>
             tvec (detected fr ! j) \<noteq> None \<and> rvec (detected fr ! j) \<noteq> None \<and>
             lookupTransform fr j \<noteq> None)"
      using Next by (metis Suc_leI le_eq_less_or_eq option.distinct(1) Suc_leD)
    then show ?thesis
      using Suc.hyps(1) [OF m] Next by (simp add: marker_loop_next)
  qed
qed


text \<open>The loop publishes nothing; it only broadcasts and logs.\<close>

lemma marker_loop_publishes_nothing:
  "marker_loop L n fr i s = (ex, s') \<Longrightarrow>
   published_markers (ls_events s') = published_markers (ls_events s) \<and>
   published_images (ls_events s') = published_images (ls_events s)"
proof (induction "length (detected fr) - i" arbitrary: i s)
  case 0
  then show ?case by (auto simp: marker_loop_end)
next
  case (Suc m)
  then have m: "m = length (detected fr) - Suc i" by simp
  show ?case
  proof (cases rule: marker_loop_cases [of i fr])
    case Done
    with Suc.prems show ?thesis by (auto simp: marker_loop_end)
  next
    case Empty
    with Suc.prems show ?thesis by (auto simp: marker_loop_pose_empty)
  next
    case (Threw tv rv)
    with Suc.prems show ?thesis by (auto simp: marker_loop_lookup_threw)
  next
    case (Next tv rv map_to_camera)
    with Suc.prems Suc.hyps(1) [OF m] show ?thesis
      by (fastforce simp: marker_loop_next)
  qed
qed

lemma marker_loop_warns:
  "marker_loop L n fr i s = (PoseEmpty, s') \<Longrightarrow> warnings (ls_events s') \<noteq> []"
proof (induction "length (detected fr) - i" arbitrary: i s)
  case 0
  then show ?case by (auto simp: marker_loop_end)
next
  case (Suc m)
  then have m: "m = length (detected fr) - Suc i" by simp
  show ?case
  proof (cases rule: marker_loop_cases [of i fr])
    case Done
    with Suc.prems show ?thesis by (auto simp: marker_loop_end)
  next
    case Empty
    with Suc.prems show ?thesis by (auto simp: marker_loop_pose_empty)
  next
    case (Threw tv rv)
    with Suc.prems show ?thesis by (auto simp: marker_loop_lookup_threw)
  next
    case (Next tv rv map_to_camera)
    with Suc.prems Suc.hyps(1) [OF m] show ?thesis
      by (fastforce simp: marker_loop_next)
  qed
qed

text \<open>The only warning of the loop is that of line 139, logged when line 140 returns.\<close>

lemma marker_loop_warnings:
  "marker_loop L n fr i s = (ex, s') \<Longrightarrow>
   warnings (ls_events s') =
     warnings (ls_events s) @
     (if ex = PoseEmpty then [''Pose estimation failed for marker.''] else [])"
proof (induction "length (detected fr) - i" arbitrary: i s)
  case 0
  then show ?case by (auto simp: marker_loop_end)
next
  case (Suc m)
  then have m: "m = length (detected fr) - Suc i" by simp
  show ?case
  proof (cases rule: marker_loop_cases [of i fr])
    case Done
    with Suc.prems show ?thesis by (auto simp: marker_loop_end)
  next
    case Empty
    with Suc.prems show ?thesis by (auto simp: marker_loop_pose_empty)
  next
    case (Threw tv rv)
    with Suc.prems show ?thesis by (auto simp: marker_loop_lookup_threw)
  next
    case (Next tv rv map_to_camera)
    with Suc.prems Suc.hyps(1) [OF m] show ?thesis
      by (fastforce simp: marker_loop_next)
  qed
qed

text \<open>What the loop has sent and collected is kept; later passes only append.\<close>

lemma marker_loop_appends:
  "marker_loop L n fr i s = (ex, s') \<Longrightarrow>
   (\<exists>bs. broadcasts (ls_events s') = broadcasts (ls_events s) @ bs) \<and>
   (\<exists>ms. ls_markers s' = ls_markers s @ ms)"
proof (induction "length (detected fr) - i" arbitrary: i s)
  case 0
  then show ?case by (auto simp: marker_loop_end)
next
  case (Suc m)
  then have m: "m = length (detected fr) - Suc i" by simp
  show ?case
  proof (cases rule: marker_loop_cases [of i fr])
    case Done
    with Suc.prems show ?thesis by (auto simp: marker_loop_end)
  next
    case Empty
    with Suc.prems show ?thesis by (auto simp: marker_loop_pose_empty)
  next
    case (Threw tv rv)
    with Suc.prems show ?thesis by (auto simp: marker_loop_lookup_threw)
  next
    case (Next tv rv map_to_camera)
    with Suc.prems Suc.hyps(1) [OF m] show ?thesis
      by (fastforce simp: marker_loop_next)
  qed
qed


lemma marker_loop_stops:
  assumes "marker_loop L n fr i s = (ex, s')"
    and "list_all2 (broadcast_of n fr) [0..<i] (broadcasts (ls_events s))"
    and "list_all2 (record_of fr) [0..<i] (ls_markers s)"
  shows "\<exists>m\<ge>i.
           list_all2 (record_of fr) [0..<m] (ls_markers s') \<and>
           list_all2 (broadcast_of n fr) [0..<(if ex = LookupThrew then Suc m else m)]
             (broadcasts (ls_events s')) \<and>
           (\<forall>j. i \<le> j \<and> j < m \<longrightarrow>
              tvec (detected fr ! j) \<noteq> None \<and> rvec (detected fr ! j) \<noteq> None \<and>
              lookupTransform fr j \<noteq> None) \<and>
           (ex = LoopDone \<longrightarrow> m = max i (length (detected fr))) \<and>
           (ex = PoseEmpty \<longrightarrow> m < length (detected fr) \<and>
              (tvec (detected fr ! m) = None \<or> rvec (detected fr ! m) = None)) \<and>
           (ex = LookupThrew \<longrightarrow> m < length (detected fr) \<and>
              tvec (detected fr ! m) \<noteq> None \<and> rvec (detected fr ! m) \<noteq> None \<and>
              lookupTransform fr m = None)"
  using assms
proof (induction "length (detected fr) - i" arbitrary: i s)
  case 0
  then have "ex = LoopDone" "s' = s" "max i (length (detected fr)) = i"
    by (auto simp: marker_loop_end)
  with "0.prems" show ?case by (intro exI [of _ i]) auto
next
  case (Suc k)
  then have k: "k = length (detected fr) - Suc i" by simp
  show ?case
  proof (cases rule: marker_loop_cases [of i fr])
    case Done
    with Suc.hyps(2) show ?thesis by simp
  next
    case Empty
    then have "ex = PoseEmpty"
      "s' = s\<lparr> ls_events := ls_events s @ [Log WARN ''Pose estimation failed for marker.''] \<rparr>"
      using Suc.prems(1) by (simp_all add: marker_loop_pose_empty)
    with Suc.prems Empty show ?thesis by (intro exI [of _ i]) auto
  next
    case (Threw tv rv)
    let ?mt = "marker_transform L n (now_marker fr i) (det_id (detected fr ! i)) rv tv"
    have "ex = LookupThrew"
      and s': "s' = s\<lparr> ls_events := ls_events s @
           [SendTransform ?mt,
            Log INFO (''Detected marker '' @ to_string (det_id (detected fr ! i)))] \<rparr>"
      using Suc.prems(1) Threw by (simp_all add: marker_loop_lookup_threw)
    have "broadcast_of n fr i ?mt"
      using Threw by (simp add: broadcast_of_def marker_transform_def)
    then have "list_all2 (broadcast_of n fr) [0..<Suc i] (broadcasts (ls_events s'))"
      using Suc.prems(2) s' by (simp add: list_all2_appendI)
    with \<open>ex = LookupThrew\<close> s' Suc.prems(3) Threw show ?thesis
      by (intro exI [of _ i]) auto
  next
    case (Next tv rv map_to_camera)
    let ?mt = "marker_transform L n (now_marker fr i) (det_id (detected fr ! i)) rv tv"
    let ?mk = "marker_record L fr (detected fr ! i) map_to_camera ?mt"
    let ?s2 = "s\<lparr> ls_events := ls_events s @
            [SendTransform ?mt,
             Log INFO (''Detected marker '' @ to_string (det_id (detected fr ! i)))],
          ls_markers := ls_markers s @ [?mk],
          ls_image := drawAxis (ls_image s) rv tv (marker_size n * (1 / 2)) \<rparr>"
    have run: "marker_loop L n fr (Suc i) ?s2 = (ex, s')"
      using Suc.prems(1) Next by (simp add: marker_loop_next)
    have "broadcast_of n fr i ?mt"
      using Next by (simp add: broadcast_of_def marker_transform_def)
    then have b: "list_all2 (broadcast_of n fr) [0..<Suc i] (broadcasts (ls_events ?s2))"
      using Suc.prems(2) by (simp add: list_all2_appendI)
    have "record_of fr i ?mk"
      by (simp add: record_of_def marker_record_def Let_def)
    then have r: "list_all2 (record_of fr) [0..<Suc i] (ls_markers ?s2)"
      using Suc.prems(3) by (simp add: list_all2_appendI)
    from Suc.hyps(1) [OF k run b r] obtain m where m: "Suc i \<le> m"
      "list_all2 (record_of fr) [0..<m] (ls_markers s')"
      "list_all2 (broadcast_of n fr) [0..<(if ex = LookupThrew then Suc m else m)]
             (broadcasts (ls_events s'))"
      "\<forall>j. Suc i \<le> j \<and> j < m \<longrightarrow>
              tvec (detected fr ! j) \<noteq> None \<and> rvec (detected fr ! j) \<noteq> None \<and>
              lookupTransform fr j \<noteq> None"
      "ex = LoopDone \<longrightarrow> m = max (Suc i) (length (detected fr))"
      "ex = PoseEmpty \<longrightarrow> m < length (detected fr) \<and>
              (tvec (detected fr ! m) = None \<or> rvec (detected fr ! m) = None)"
      "ex = LookupThrew \<longrightarrow> m < length (detected fr) \<and>
              tvec (detected fr ! m) \<noteq> None \<and> rvec (detected fr ! m) \<noteq> None \<and>
              lookupTransform fr m = None"
      by blast
    have all: "\<forall>j. i \<le> j \<and> j < m \<longrightarrow>
              tvec (detected fr ! j) \<noteq> None \<and> rvec (detected fr ! j) \<noteq> None \<and>
              lookupTransform fr j \<noteq> None"
    proof (intro allI impI)
      fix j assume j: "i \<le> j \<and> j < m"
      show "tvec (detected fr ! j) \<noteq> None \<and> rvec (detected fr ! j) \<noteq> None \<and>
              lookupTransform fr j \<noteq> None"
      proof (cases "j = i")
        case True
        with Next show ?thesis by simp
      next
        case False
        with j have "Suc i \<le> j \<and> j < m" by simp
        with m(4) show ?thesis by blast
      qed
    qed
    have mx: "max (Suc i) (length (detected fr)) = max i (length (detected fr))"
      using Next(1) by simp
    show ?thesis
      using m all mx by (intro exI [of _ m]) auto
  qed
qed


text \<open>The callback in terms of the way the loop ends.\<close>

lemma image_callback_loop:
  assumes "received_camera_info n" and "toCvCopy fr = Some img"
    and "marker_loop L n fr 0 \<lparr> ls_image = img, ls_markers = [], ls_events = [] \<rparr> = (ex, s)"
  shows "image_callback L n fr =
     (case ex of
        LoopDone \<Rightarrow>
          ls_events s @
          [PublishImage \<lparr> im_header = msg_header fr, encoding = ''bgr8'',
                          im_data = ls_image s \<rparr>,
           PublishMarkers \<lparr> ma_header = \<lparr> stamp = now_array fr, frame_id = ''map'' \<rparr>,
                            markers = ls_markers s \<rparr>]
      | PoseEmpty \<Rightarrow> ls_events s
      | LookupThrew \<Rightarrow> ls_events s @ [Log WARN ''TF2 exception''])"
proof (cases "detected fr = []")
  case True
  then have "ex = LoopDone" "s = \<lparr> ls_image = img, ls_markers = [], ls_events = [] \<rparr>"
    using assms(3) by (simp_all add: marker_loop_end)
  with True assms(1,2) show ?thesis by (simp add: image_callback_def)
next
  case False
  with assms show ?thesis by (simp add: image_callback_def)
qed

lemma image_callback_outputs:
  assumes "received_camera_info n" and "toCvCopy fr = Some img"
    and "marker_loop L n fr 0 \<lparr> ls_image = img, ls_markers = [], ls_events = [] \<rparr> = (ex, s)"
  shows "broadcasts (image_callback L n fr) = broadcasts (ls_events s)"
    and "published_markers (image_callback L n fr) =
          (if ex = LoopDone
           then [\<lparr> ma_header = \<lparr> stamp = now_array fr, frame_id = ''map'' \<rparr>,
                    markers = ls_markers s \<rparr>]
           else [])"
    and "published_images (image_callback L n fr) =
          (if ex = LoopDone
           then [\<lparr> im_header = msg_header fr, encoding = ''bgr8'', im_data = ls_image s \<rparr>]
           else [])"
    and "ex \<noteq> LoopDone \<Longrightarrow> warnings (image_callback L n fr) \<noteq> []"
  using image_callback_loop [OF assms] marker_loop_publishes_nothing [OF assms(3)]
    marker_loop_warns [of L n fr 0 _ s] assms(3)
  by (cases ex; simp)+

lemma image_callback_warnings:
  assumes "received_camera_info n" and "toCvCopy fr = Some img"
    and "marker_loop L n fr 0 \<lparr> ls_image = img, ls_markers = [], ls_events = [] \<rparr> = (ex, s)"
  shows "warnings (image_callback L n fr) =
          (case ex of
             LoopDone \<Rightarrow> []
           | PoseEmpty \<Rightarrow> [''Pose estimation failed for marker.'']
           | LookupThrew \<Rightarrow> [''TF2 exception''])"
  using image_callback_loop [OF assms] marker_loop_warnings [OF assms(3)]
  by (cases ex; simp)

section \<open>Lemmas on the example inputs\<close>

text \<open>The calibrated example node is the default node after its first calibration.\<close>

lemma calibrated_node_reached:
  "\<exists>sent n0 logged. main_startup default_params = (sent, Some n0) \<and>
     camera_info_callback n0 example_info = Inr (logged, calibrated_node)"
  by (simp add: main_startup_def default_params_def ArucoRos2Node_def initialize_def
      dictNameToEnum_def dict_name_map_def get_parameter_def camera_info_callback_def
      store_calibration_def example_info_def calibrated_node_def vector_at_def
      logged_indices_def mat_zeros_def mat_alloc_def copy_coefficients.simps Let_def)

lemma main_startup_uncalibrated:
  "main_startup p = (sent, Some n) \<Longrightarrow> \<not> received_camera_info n"
  by (auto simp: main_startup_def ArucoRos2Node_def initialize_def Let_def
      split: sum.splits)

section \<open>The claims\<close>

subsection \<open>C1: a frame whose marker loop is left early\<close>

text \<open>
  Claim C1 says that a frame whose loop is left early (a degenerate pose at some index,
  which the code recognises by the empty row of line 137, or a failed lookup of the
  camera in the map frame) still has its annotated image and its marker array
  published. The code does not: the \<^verbatim>\<open>return\<close> of line 140 leaves the
  callback, and the exception of line 171 leaves the \<^verbatim>\<open>try\<close> block, before lines 207 to
  211. Two calibrated frames show it, one with an empty pose at index 1 and one whose
  lookup fails: neither publishes anything.
\<close>

theorem aborted_frame_counterexample:
  "published_images (image_callback example_library calibrated_node
      (example_frame second_pose_empty (\<lambda>i. Some map_to_camera_example))) = [] \<and>
   published_markers (image_callback example_library calibrated_node
      (example_frame second_pose_empty (\<lambda>i. Some map_to_camera_example))) = [] \<and>
   published_images (image_callback example_library calibrated_node
      (example_frame two_markers (\<lambda>i. None))) = [] \<and>
   published_markers (image_callback example_library calibrated_node
      (example_frame two_markers (\<lambda>i. None))) = []"
  by (simp add: image_callback_def example_defs marker_loop.simps Let_def)

text \<open>
  Claim C1 as amended: for every calibrated frame that decodes and has, at some index
  \<open>k\<close>, an empty pose or a failed lookup, the loop does not run to its end, and the
  callback publishes neither an image nor a marker array; it logs a warning.
\<close>

theorem aborted_frame_publishes_nothing:
  assumes "received_camera_info n" and "toCvCopy fr = Some img"
    and "k < length (detected fr)"
    and "tvec (detected fr ! k) = None \<or> rvec (detected fr ! k) = None \<or>
         lookupTransform fr k = None"
  shows "fst (marker_loop L n fr 0 \<lparr> ls_image = img, ls_markers = [], ls_events = [] \<rparr>)
           \<noteq> LoopDone \<and>
         published_images (image_callback L n fr) = [] \<and>
         published_markers (image_callback L n fr) = [] \<and>
         warnings (image_callback L n fr) \<noteq> []"
proof -
  obtain ex s where run:
    "marker_loop L n fr 0 \<lparr> ls_image = img, ls_markers = [], ls_events = [] \<rparr> = (ex, s)"
    by (cases "marker_loop L n fr 0 \<lparr> ls_image = img, ls_markers = [], ls_events = [] \<rparr>")
  have "ex \<noteq> LoopDone"
    using marker_loop_done_iff [of L n fr 0 "\<lparr> ls_image = img, ls_markers = [], ls_events = [] \<rparr>"]
      assms(3,4) run by auto
  with image_callback_outputs [OF assms(1,2) run] run show ?thesis by simp
qed

text \<open>The amended claim at the frame whose second marker has no translation row.\<close>

theorem aborted_frame_publishes_nothing_witness:
  "received_camera_info calibrated_node \<and>
   tvec (detected (example_frame second_pose_empty (\<lambda>i. Some map_to_camera_example)) ! 1)
     = None \<and>
   published_images (image_callback example_library calibrated_node
      (example_frame second_pose_empty (\<lambda>i. Some map_to_camera_example))) = [] \<and>
   published_markers (image_callback example_library calibrated_node
      (example_frame second_pose_empty (\<lambda>i. Some map_to_camera_example))) = [] \<and>
   warnings (image_callback example_library calibrated_node
      (example_frame second_pose_empty (\<lambda>i. Some map_to_camera_example))) \<noteq> []"
  using aborted_frame_publishes_nothing [of calibrated_node
      "example_frame second_pose_empty (\<lambda>i. Some map_to_camera_example)"
      "\<lparr> pixels = [0, 0, 0], axes = [] \<rparr>" 1 example_library]
  by (simp add: calibrated_node_def example_frame_def second_pose_empty_def)

subsection \<open>C2: two markers and a lookup that fails\<close>

text \<open>
  Claim C2 says that with two well-posed markers and a failing lookup no record is
  published and both transforms are still broadcast. The first half holds; the second
  does not: the lookup of the first pass throws, and the second marker is never
  reached. For markers 7 and 12 the only broadcast is that of marker 7.
\<close>

theorem failed_lookup_counterexample:
  "map child_frame_id (broadcasts (image_callback example_library calibrated_node
      (example_frame two_markers (\<lambda>i. None)))) = [''aruco_marker_7''] \<and>
   length (broadcasts (image_callback example_library calibrated_node
      (example_frame two_markers (\<lambda>i. None)))) \<noteq> 2"
  by (simp add: image_callback_def example_defs marker_loop.simps Let_def
      marker_transform_def to_string_def string_of_nat.simps digit_char_def)

text \<open>
  Claim C2 as amended: for a calibrated frame that decodes, with two detected markers
  whose poses are not empty, and whose lookup fails in the first pass (as it does when
  it fails throughout the frame), the callback sends exactly the first marker's
  transform, the log line of that marker and the warning of the exception handler; no
  marker array is published and there is one broadcast.
\<close>

theorem failed_lookup_one_broadcast:
  assumes "received_camera_info n" and "toCvCopy fr = Some img"
    and "detected fr = [d0, d1]"
    and "tvec d0 = Some tv0" "rvec d0 = Some rv0" "tvec d1 = Some tv1" "rvec d1 = Some rv1"
    and "lookupTransform fr 0 = None"
  shows "image_callback L n fr =
     [SendTransform (marker_transform L n (now_marker fr 0) (det_id d0) rv0 tv0),
      Log INFO (''Detected marker '' @ to_string (det_id d0)),
      Log WARN ''TF2 exception''] \<and>
     published_markers (image_callback L n fr) = [] \<and>
     broadcasts (image_callback L n fr) =
       [marker_transform L n (now_marker fr 0) (det_id d0) rv0 tv0]"
proof -
  have "marker_loop L n fr 0 \<lparr> ls_image = img, ls_markers = [], ls_events = [] \<rparr> =
     (LookupThrew,
      \<lparr> ls_image = img, ls_markers = [],
        ls_events = [SendTransform (marker_transform L n (now_marker fr 0) (det_id d0) rv0 tv0),
                     Log INFO (''Detected marker '' @ to_string (det_id d0))] \<rparr>)"
    using assms by (subst marker_loop_lookup_threw [of 0 fr tv0 rv0]) simp_all
  then have "image_callback L n fr =
     [SendTransform (marker_transform L n (now_marker fr 0) (det_id d0) rv0 tv0),
      Log INFO (''Detected marker '' @ to_string (det_id d0)),
      Log WARN ''TF2 exception'']"
    using assms by (simp add: image_callback_def)
  then show ?thesis by simp
qed

text \<open>The amended claim at markers 7 and 12 with no transform from map to camera.\<close>

theorem failed_lookup_one_broadcast_witness:
  "received_camera_info calibrated_node \<and>
   detected (example_frame two_markers (\<lambda>i. None)) = two_markers \<and>
   lookupTransform (example_frame two_markers (\<lambda>i. None)) 0 = None \<and>
   published_markers (image_callback example_library calibrated_node
      (example_frame two_markers (\<lambda>i. None))) = [] \<and>
   broadcasts (image_callback example_library calibrated_node
      (example_frame two_markers (\<lambda>i. None))) =
     [marker_transform example_library calibrated_node 1600 7 (vec 0 0 0) (vec 0 0 1)]"
  using failed_lookup_one_broadcast [of calibrated_node "example_frame two_markers (\<lambda>i. None)"
      "\<lparr> pixels = [0, 0, 0], axes = [] \<rparr>"
      "\<lparr> det_id = 7, first_corner = (100, 120), rvec = Some (vec 0 0 0), tvec = Some (vec 0 0 1) \<rparr>"
      "\<lparr> det_id = 12, first_corner = (300, 80), rvec = Some (vec 0 0 0), tvec = Some (vec 1 0 2) \<rparr>"
      "vec 0 0 1" "vec 0 0 0" "vec 1 0 2" "vec 0 0 0" example_library]
  by (simp add: calibrated_node_def example_frame_def two_markers_def)

subsection \<open>C3: an empty pose ends the frame\<close>

text \<open>
  Claim C3 says that a degenerate pose at index \<open>k\<close> is answered with a warning and that
  nothing is broadcast or recorded for the markers from \<open>k\<close> on. The specification
  counts a pose as degenerate when it is empty or not a number. Line 137 tests
  \<^verbatim>\<open>Mat::empty()\<close> only, and no line looks at the entries of a pose: a single marker
  whose rotation and translation are not a number in every entry is broadcast,
  recorded and published like any other, and no warning is logged.
\<close>

theorem valued_degenerate_pose_counterexample:
  "tvec (detected (example_frame nan_pose_marker (\<lambda>i. Some map_to_camera_example)) ! 0)
     = Some (NaN, NaN, NaN) \<and>
   rvec (detected (example_frame nan_pose_marker (\<lambda>i. Some map_to_camera_example)) ! 0)
     = Some (NaN, NaN, NaN) \<and>
   warnings (image_callback example_library calibrated_node
      (example_frame nan_pose_marker (\<lambda>i. Some map_to_camera_example))) = [] \<and>
   map (translation \<circ> ts_transform) (broadcasts (image_callback example_library
      calibrated_node (example_frame nan_pose_marker (\<lambda>i. Some map_to_camera_example))))
     = [(NaN, NaN, NaN)] \<and>
   map (map marker_id \<circ> markers) (published_markers (image_callback example_library
      calibrated_node (example_frame nan_pose_marker (\<lambda>i. Some map_to_camera_example))))
     = [[7]]"
  by (simp add: image_callback_def example_defs marker_loop.simps Let_def
      marker_transform_def marker_record_def drawAxis_def)

text \<open>
  Claim C3 as amended, for the degenerate poses the code recognises: when a pose row of
  the marker at index \<open>k\<close> is empty (the test of line 137), the frame being calibrated
  and decoded so that the estimator ran, exactly one warning is logged, that of line
  139 or that of the exception handler of line 219, and nothing is produced for the
  markers from \<open>k\<close> on: no marker array is published at all, there are at most \<open>k\<close>
  broadcasts, broadcast \<open>j\<close> carries the frame name of the marker at index \<open>j\<close>, and
  the array the loop collected holds at most \<open>k\<close> records. When all passes before
  \<open>k\<close> succeed, the warning is that of line 139 and there are exactly \<open>k\<close> broadcasts.
\<close>

theorem empty_pose_aborts_frame:
  assumes "received_camera_info n" and "toCvCopy fr = Some img"
    and "k < length (detected fr)"
    and "tvec (detected fr ! k) = None \<or> rvec (detected fr ! k) = None"
  shows "warnings (image_callback L n fr) \<noteq> [] \<and>
         published_markers (image_callback L n fr) = [] \<and>
         length (broadcasts (image_callback L n fr)) \<le> k \<and>
         (\<forall>j < length (broadcasts (image_callback L n fr)).
            child_frame_id (broadcasts (image_callback L n fr) ! j) =
              ''aruco_marker_'' @ to_string (det_id (detected fr ! j))) \<and>
         length (ls_markers (snd (marker_loop L n fr 0
            \<lparr> ls_image = img, ls_markers = [], ls_events = [] \<rparr>))) \<le> k \<and>
         (warnings (image_callback L n fr) = [''Pose estimation failed for marker.''] \<or>
          warnings (image_callback L n fr) = [''TF2 exception'']) \<and>
         ((\<forall>j < k. tvec (detected fr ! j) \<noteq> None \<and> rvec (detected fr ! j) \<noteq> None \<and>
              lookupTransform fr j \<noteq> None) \<longrightarrow>
            warnings (image_callback L n fr) = [''Pose estimation failed for marker.''] \<and>
            length (broadcasts (image_callback L n fr)) = k)"
proof -
  let ?s0 = "\<lparr> ls_image = img, ls_markers = [], ls_events = [] \<rparr>"
  obtain ex s where run: "marker_loop L n fr 0 ?s0 = (ex, s)"
    by (cases "marker_loop L n fr 0 ?s0")
  from marker_loop_stops [OF run] obtain m where
    recs: "list_all2 (record_of fr) [0..<m] (ls_markers s)" and
    sent: "list_all2 (broadcast_of n fr) [0..<(if ex = LookupThrew then Suc m else m)]
             (broadcasts (ls_events s))" and
    good: "\<forall>j. j < m \<longrightarrow>
              tvec (detected fr ! j) \<noteq> None \<and> rvec (detected fr ! j) \<noteq> None \<and>
              lookupTransform fr j \<noteq> None" and
    fin: "ex = LoopDone \<longrightarrow> m = length (detected fr)" and
    empty: "ex = PoseEmpty \<longrightarrow> m < length (detected fr) \<and>
              (tvec (detected fr ! m) = None \<or> rvec (detected fr ! m) = None)" and
    threw: "ex = LookupThrew \<longrightarrow> m < length (detected fr) \<and>
              tvec (detected fr ! m) \<noteq> None \<and> rvec (detected fr ! m) \<noteq> None \<and>
              lookupTransform fr m = None"
    by auto
  have mk: "m \<le> k"
    using good assms(4) by (metis not_le_imp_less)
  have ex: "ex \<noteq> LoopDone"
    using fin mk assms(3) by auto
  have "ex = LookupThrew \<longrightarrow> m \<noteq> k"
    using threw assms(4) by auto
  with mk have bound: "(if ex = LookupThrew then Suc m else m) \<le> k" by auto
  have len: "length (broadcasts (ls_events s)) = (if ex = LookupThrew then Suc m else m)"
    using list_all2_lengthD [OF sent] by simp
  have names: "\<forall>j < length (broadcasts (ls_events s)).
      child_frame_id (broadcasts (ls_events s) ! j) =
        ''aruco_marker_'' @ to_string (det_id (detected fr ! j))"
  proof (intro allI impI)
    fix j assume j: "j < length (broadcasts (ls_events s))"
    then have "broadcast_of n fr ([0..<(if ex = LookupThrew then Suc m else m)] ! j)
                 (broadcasts (ls_events s) ! j)"
      using list_all2_nthD2 [OF sent] by blast
    moreover have "[0..<(if ex = LookupThrew then Suc m else m)] ! j = j"
      using j len by (metis add_0 nth_upt)
    ultimately show "child_frame_id (broadcasts (ls_events s) ! j) =
        ''aruco_marker_'' @ to_string (det_id (detected fr ! j))"
      by (simp add: broadcast_of_def)
  qed
  have "length (ls_markers s) = m"
    using list_all2_lengthD [OF recs] by simp
  with mk have kept: "length (ls_markers (snd (marker_loop L n fr 0 ?s0))) \<le> k"
    using run by simp
  have which: "warnings (image_callback L n fr) = [''Pose estimation failed for marker.''] \<or>
      warnings (image_callback L n fr) = [''TF2 exception'']"
    using image_callback_warnings [OF assms(1,2) run] ex by (cases ex) simp_all
  have first: "warnings (image_callback L n fr) = [''Pose estimation failed for marker.''] \<and>
      length (broadcasts (image_callback L n fr)) = k"
    if before: "\<forall>j < k. tvec (detected fr ! j) \<noteq> None \<and> rvec (detected fr ! j) \<noteq> None \<and>
              lookupTransform fr j \<noteq> None"
  proof -
    have notok: "tvec (detected fr ! m) = None \<or> rvec (detected fr ! m) = None \<or>
        lookupTransform fr m = None"
      using ex empty threw by (cases ex) auto
    have "\<not> m < k"
      using before notok by blast
    with mk have "m = k" by simp
    with threw assms(4) have "ex \<noteq> LookupThrew" by auto
    with ex have "ex = PoseEmpty" by (cases ex) simp_all
    with image_callback_warnings [OF assms(1,2) run]
      image_callback_outputs(1) [OF assms(1,2) run] len \<open>m = k\<close>
    show ?thesis by simp
  qed
  from image_callback_outputs [OF assms(1,2) run] ex len bound names kept which first
  show ?thesis by simp
qed

text \<open>
  The amended claim at three markers of which the second has no translation row: the
  first marker is broadcast, the warning is that of line 139.
\<close>

theorem empty_pose_aborts_frame_witness:
  "received_camera_info calibrated_node \<and>
   tvec (detected (example_frame second_pose_empty (\<lambda>i. Some map_to_camera_example)) ! 1)
     = None \<and>
   warnings (image_callback example_library calibrated_node
      (example_frame second_pose_empty (\<lambda>i. Some map_to_camera_example))) =
     [''Pose estimation failed for marker.''] \<and>
   published_markers (image_callback example_library calibrated_node
      (example_frame second_pose_empty (\<lambda>i. Some map_to_camera_example))) = [] \<and>
   length (broadcasts (image_callback example_library calibrated_node
      (example_frame second_pose_empty (\<lambda>i. Some map_to_camera_example)))) = 1"
proof -
  have h: "\<forall>j < 1. tvec (detected (example_frame second_pose_empty
                 (\<lambda>i. Some map_to_camera_example)) ! j) \<noteq> None \<and>
             rvec (detected (example_frame second_pose_empty
                 (\<lambda>i. Some map_to_camera_example)) ! j) \<noteq> None \<and>
             lookupTransform (example_frame second_pose_empty
                 (\<lambda>i. Some map_to_camera_example)) j \<noteq> None"
    by (simp add: example_frame_def second_pose_empty_def)
  show ?thesis
    using h empty_pose_aborts_frame [of calibrated_node
      "example_frame second_pose_empty (\<lambda>i. Some map_to_camera_example)"
      "\<lparr> pixels = [0, 0, 0], axes = [] \<rparr>" 1 example_library]
    by (simp add: calibrated_node_def example_frame_def second_pose_empty_def)
qed

subsection \<open>C4: images before the first calibration\<close>

text \<open>
  Claim C4: while no calibration message has been received (the flag of line 317 is
  still false, as it is after start-up by \<open>main_startup_uncalibrated\<close>, and the image
  callback assigns no member), an image is skipped: the callback logs that it waits
  and sends nothing else, so no marker array, no transform and no image.
\<close>

theorem uncalibrated_frame_skipped:
  "\<not> received_camera_info n \<Longrightarrow>
   image_callback L n fr = [Log INFO ''Waiting for camera info.''] \<and>
   published_markers (image_callback L n fr) = [] \<and>
   broadcasts (image_callback L n fr) = [] \<and>
   published_images (image_callback L n fr) = []"
  by (simp add: image_callback_def)

text \<open>Claim C4 at the freshly constructed default node and a frame with two markers.\<close>

theorem uncalibrated_frame_skipped_witness:
  "\<not> received_camera_info (snd (ArucoRos2Node default_params)) \<and>
   image_callback example_library (snd (ArucoRos2Node default_params))
     (example_frame two_markers (\<lambda>i. Some map_to_camera_example)) =
     [Log INFO ''Waiting for camera info.'']"
proof -
  have h: "\<not> received_camera_info (snd (ArucoRos2Node default_params))"
    by (simp add: ArucoRos2Node_def)
  show ?thesis
    using h uncalibrated_frame_skipped [OF h, of example_library
        "example_frame two_markers (\<lambda>i. Some map_to_camera_example)"]
    by simp
qed

subsection \<open>C5: a frame without markers\<close>

text \<open>
  Claim C5 says that the empty marker array published for a frame without markers
  carries the frame's time stamp. Line 110 stamps the array with the node's clock
  instead: for an image stamped 1000 that is processed when the clock reads 1500, the
  array is stamped 1500.
\<close>

theorem no_markers_stamp_counterexample:
  "published_markers (image_callback example_library calibrated_node
      (example_frame [] (\<lambda>i. None))) =
     [\<lparr> ma_header = \<lparr> stamp = 1500, frame_id = ''map'' \<rparr>, markers = [] \<rparr>] \<and>
   stamp (msg_header (example_frame [] (\<lambda>i. None))) = 1000 \<and>
   stamp (ma_header (hd (published_markers (image_callback example_library calibrated_node
      (example_frame [] (\<lambda>i. None)))))) \<noteq> stamp (msg_header (example_frame [] (\<lambda>i. None)))"
  by (simp add: image_callback_def calibrated_node_def example_frame_def)

text \<open>
  Claim C5 as amended: for every calibrated frame that decodes and has no detected
  marker, the callback sends exactly two things: the decoded image as it is, under the
  frame's header, and one marker array without records, in frame \<open>map\<close>, stamped with
  the clock reading taken when the callback ran.
\<close>

theorem no_markers_empty_set:
  assumes "received_camera_info n" and "toCvCopy fr = Some img" and "detected fr = []"
  shows "image_callback L n fr =
     [PublishImage \<lparr> im_header = msg_header fr, encoding = ''bgr8'', im_data = img \<rparr>,
      PublishMarkers \<lparr> ma_header = \<lparr> stamp = now_array fr, frame_id = ''map'' \<rparr>,
                       markers = [] \<rparr>]"
  using assms by (simp add: image_callback_def)

text \<open>The amended claim at the example frame without markers.\<close>

theorem no_markers_empty_set_witness:
  "received_camera_info calibrated_node \<and>
   toCvCopy (example_frame [] (\<lambda>i. None)) = Some \<lparr> pixels = [0, 0, 0], axes = [] \<rparr> \<and>
   detected (example_frame [] (\<lambda>i. None)) = [] \<and>
   image_callback example_library calibrated_node (example_frame [] (\<lambda>i. None)) =
     [PublishImage \<lparr> im_header = \<lparr> stamp = 1000, frame_id = ''camera_rgb_optical_frame'' \<rparr>,
                     encoding = ''bgr8'', im_data = \<lparr> pixels = [0, 0, 0], axes = [] \<rparr> \<rparr>,
      PublishMarkers \<lparr> ma_header = \<lparr> stamp = 1500, frame_id = ''map'' \<rparr>, markers = [] \<rparr>]"
  using no_markers_empty_set [of calibrated_node "example_frame [] (\<lambda>i. None)"
      "\<lparr> pixels = [0, 0, 0], axes = [] \<rparr>" example_library]
  by (simp add: calibrated_node_def example_frame_def)

subsection \<open>C6: the dictionary name\<close>

text \<open>
  Claim C6 says that an unknown dictionary name makes start-up fail before any
  subscription is established. Start-up does fail, but \<^verbatim>\<open>initialize\<close> looks the name up
  in its last statement but one: with the name \<^verbatim>\<open>NOT_A_REAL_DICT\<close> both subscriptions
  exist when the exception is thrown.
\<close>

theorem dictionary_validation_counterexample:
  "snd (main_startup bad_dictionary_params) = None \<and>
   subscriptions (fst (main_startup bad_dictionary_params)) =
     [''/camera/color/image_raw'', ''/camera/color/camera_info''] \<and>
   fst (initialize (snd (ArucoRos2Node bad_dictionary_params))) =
     [Log INFO ''Initializing.'',
      Subscribe ''/camera/color/image_raw'',
      Advertise ''aruco_marker_info'',
      Advertise ''/aruco/markers'',
      Subscribe ''/camera/color/camera_info'',
      Advertise ''/aruco/result'',
      CreateBroadcaster]"
  by (simp add: main_startup_def bad_dictionary_params_def default_params_def
      ArucoRos2Node_def initialize_def dictNameToEnum_def dict_name_map_def
      get_parameter_def Let_def)

text \<open>
  Claim C6 as amended: the accepted names are the 21 distinct names of the
  specification (sixteen by size and count, the original one, four AprilTag ones), and
  they are the keys of the table; \<^verbatim>\<open>initialize\<close> succeeds exactly for them and throws
  \<^verbatim>\<open>std::invalid_argument\<close> for every other string; in either case it has by then
  subscribed to the image topic and to the calibration topic, advertised its three
  topics and created the transform broadcaster, in the order of lines 44 to 63; and
  \<^verbatim>\<open>main\<close> has sent the events of the constructor and of \<^verbatim>\<open>initialize\<close> and reaches
  \<^verbatim>\<open>rclcpp::spin\<close> exactly when the configured name (the default included) is accepted,
  so that after a failure no callback ever runs.
\<close>

theorem dictionary_validation:
  "length spec_dictionary_names = 21 \<and> distinct spec_dictionary_names \<and>
   map fst dict_name_map = spec_dictionary_names \<and>
   ((\<exists>n'. snd (initialize n) = Inr n') \<longleftrightarrow> dictionary n \<in> set spec_dictionary_names) \<and>
   (snd (initialize n) = Inl (InvalidArgument ''Invalid dictionary'') \<longleftrightarrow>
      dictionary n \<notin> set spec_dictionary_names) \<and>
   subscriptions (fst (initialize n)) = [image_topic n, camera_info_topic n] \<and>
   fst (initialize n) =
     [Log INFO ''Initializing.'',
      Subscribe (image_topic n),
      Advertise ''aruco_marker_info'',
      Advertise ''/aruco/markers'',
      Subscribe (camera_info_topic n),
      Advertise ''/aruco/result'',
      CreateBroadcaster] \<and>
   fst (main_startup p) =
     fst (ArucoRos2Node p) @ fst (initialize (snd (ArucoRos2Node p))) \<and>
   (snd (main_startup p) = None \<longleftrightarrow>
      get_parameter (p_dictionary p) ''DICT_4X4_1000'' \<notin> set spec_dictionary_names)"
proof -
  have a: "(\<exists>n'. snd (initialize n) = Inr n') \<longleftrightarrow> dictionary n \<in> set spec_dictionary_names"
    using dictNameToEnum_accepts [of "dictionary n"]
    by (auto simp: initialize_def Let_def split: sum.splits)
  have b: "snd (initialize n) = Inl (InvalidArgument ''Invalid dictionary'') \<longleftrightarrow>
      dictionary n \<notin> set spec_dictionary_names"
    using dictNameToEnum_rejects [of "dictionary n"]
    by (auto simp: initialize_def Let_def split: sum.splits)
  have c: "subscriptions (fst (initialize n)) = [image_topic n, camera_info_topic n]"
    by (simp add: initialize_def Let_def split: sum.splits)
  have d: "snd (main_startup p) = None \<longleftrightarrow>
      get_parameter (p_dictionary p) ''DICT_4X4_1000'' \<notin> set spec_dictionary_names"
    using dictNameToEnum_accepts [of "get_parameter (p_dictionary p) ''DICT_4X4_1000''"]
    by (auto simp: main_startup_def ArucoRos2Node_def initialize_def Let_def
        split: sum.splits)
  have e: "fst (initialize n) =
     [Log INFO ''Initializing.'',
      Subscribe (image_topic n),
      Advertise ''aruco_marker_info'',
      Advertise ''/aruco/markers'',
      Subscribe (camera_info_topic n),
      Advertise ''/aruco/result'',
      CreateBroadcaster]"
    by (simp add: initialize_def Let_def split: sum.splits)
  have f: "fst (main_startup p) =
     fst (ArucoRos2Node p) @ fst (initialize (snd (ArucoRos2Node p)))"
    by (simp add: main_startup_def Let_def split: prod.splits sum.splits)
  show ?thesis
    using a b c d e f spec_dictionary_names_distinct dict_names by blast
qed

subsection \<open>C7: frames and time stamps of a processed marker\<close>

text \<open>
  Claim C7: when the passes for the markers up to index \<open>j\<close> all succeed (poses not
  empty, lookups answered), the \<open>j\<close>-th broadcast has the configured camera frame as
  parent, the child frame \<^verbatim>\<open>aruco_marker_\<close> followed by the decimal id of marker \<open>j\<close>, and
  the clock reading of that pass as time stamp; and the \<open>j\<close>-th record of the array
  carries the image's time stamp, the frame \<open>map\<close> and the id of marker \<open>j\<close>. Every
  marker array the callback publishes holds exactly the records the loop collected.
\<close>

theorem marker_frames_and_stamps:
  assumes "received_camera_info n" and "toCvCopy fr = Some img"
    and "j < length (detected fr)"
    and "\<forall>i \<le> j. tvec (detected fr ! i) \<noteq> None \<and> rvec (detected fr ! i) \<noteq> None \<and>
           lookupTransform fr i \<noteq> None"
  shows "j < length (broadcasts (image_callback L n fr)) \<and>
         ts_header (broadcasts (image_callback L n fr) ! j) =
           \<lparr> stamp = now_marker fr j, frame_id = camera_frame n \<rparr> \<and>
         child_frame_id (broadcasts (image_callback L n fr) ! j) =
           ''aruco_marker_'' @ to_string (det_id (detected fr ! j)) \<and>
         (let ms = ls_markers (snd (marker_loop L n fr 0
                     \<lparr> ls_image = img, ls_markers = [], ls_events = [] \<rparr>))
          in j < length ms \<and>
             m_header (ms ! j) = \<lparr> stamp = stamp (msg_header fr), frame_id = ''map'' \<rparr> \<and>
             marker_id (ms ! j) = det_id (detected fr ! j) \<and>
             (\<forall>ma. ma \<in> set (published_markers (image_callback L n fr)) \<longrightarrow>
                markers ma = ms))"
proof -
  let ?s0 = "\<lparr> ls_image = img, ls_markers = [], ls_events = [] \<rparr>"
  obtain ex s where run: "marker_loop L n fr 0 ?s0 = (ex, s)"
    by (cases "marker_loop L n fr 0 ?s0")
  from marker_loop_stops [OF run] obtain m where
    recs: "list_all2 (record_of fr) [0..<m] (ls_markers s)" and
    sent: "list_all2 (broadcast_of n fr) [0..<(if ex = LookupThrew then Suc m else m)]
             (broadcasts (ls_events s))" and
    fin: "ex = LoopDone \<longrightarrow> m = length (detected fr)" and
    empty: "ex = PoseEmpty \<longrightarrow> m < length (detected fr) \<and>
              (tvec (detected fr ! m) = None \<or> rvec (detected fr ! m) = None)" and
    threw: "ex = LookupThrew \<longrightarrow> m < length (detected fr) \<and>
              tvec (detected fr ! m) \<noteq> None \<and> rvec (detected fr ! m) \<noteq> None \<and>
              lookupTransform fr m = None"
    by auto
  have jm: "j < m"
  proof (cases ex)
    case LoopDone
    with fin assms(3) show ?thesis by simp
  next
    case PoseEmpty
    with empty assms(4) show ?thesis by (metis not_le_imp_less)
  next
    case LookupThrew
    with threw assms(4) show ?thesis by (metis not_le_imp_less)
  qed
  have lenb: "length (broadcasts (ls_events s)) = (if ex = LookupThrew then Suc m else m)"
    using list_all2_lengthD [OF sent] by simp
  have lenm: "length (ls_markers s) = m"
    using list_all2_lengthD [OF recs] by simp
  have jb: "j < length (broadcasts (ls_events s))" using jm lenb by simp
  have "broadcast_of n fr ([0..<(if ex = LookupThrew then Suc m else m)] ! j)
          (broadcasts (ls_events s) ! j)"
    using list_all2_nthD2 [OF sent jb] .
  moreover have "[0..<(if ex = LookupThrew then Suc m else m)] ! j = j"
    using jb lenb by (metis add_0 nth_upt)
  ultimately have b: "broadcast_of n fr j (broadcasts (ls_events s) ! j)" by simp
  have "record_of fr ([0..<m] ! j) (ls_markers s ! j)"
    using list_all2_nthD2 [OF recs] jm lenm by simp
  then have r: "record_of fr j (ls_markers s ! j)" using jm by simp
  show ?thesis
    using image_callback_outputs(1,2) [OF assms(1,2) run] run jb b r jm lenm
    by (simp add: broadcast_of_def record_of_def Let_def)
qed

text \<open>
  Claim C7 at the second of the markers 7 and 12: broadcast at clock reading 1601 as
  \<^verbatim>\<open>aruco_marker_12\<close>, recorded with the image's stamp 1000 in frame \<open>map\<close>.
\<close>

theorem marker_frames_and_stamps_witness:
  "received_camera_info calibrated_node \<and>
   ts_header (broadcasts (image_callback example_library calibrated_node
      (example_frame two_markers (\<lambda>i. Some map_to_camera_example))) ! 1) =
     \<lparr> stamp = 1601, frame_id = ''camera_rgb_optical_frame'' \<rparr> \<and>
   child_frame_id (broadcasts (image_callback example_library calibrated_node
      (example_frame two_markers (\<lambda>i. Some map_to_camera_example))) ! 1) =
     ''aruco_marker_12'' \<and>
   m_header (ls_markers (snd (marker_loop example_library calibrated_node
      (example_frame two_markers (\<lambda>i. Some map_to_camera_example)) 0
      \<lparr> ls_image = \<lparr> pixels = [0, 0, 0], axes = [] \<rparr>, ls_markers = [], ls_events = [] \<rparr>)) ! 1) =
     \<lparr> stamp = 1000, frame_id = ''map'' \<rparr>"
proof -
  have h: "\<forall>i \<le> 1. tvec (detected (example_frame two_markers
                 (\<lambda>i. Some map_to_camera_example)) ! i) \<noteq> None \<and>
             rvec (detected (example_frame two_markers
                 (\<lambda>i. Some map_to_camera_example)) ! i) \<noteq> None \<and>
             lookupTransform (example_frame two_markers
                 (\<lambda>i. Some map_to_camera_example)) i \<noteq> None"
    by (auto simp: example_frame_def two_markers_def vec_def le_Suc_eq)
  show ?thesis
    using marker_frames_and_stamps [of calibrated_node
      "example_frame two_markers (\<lambda>i. Some map_to_camera_example)"
      "\<lparr> pixels = [0, 0, 0], axes = [] \<rparr>" 1 example_library, OF _ _ _ h]
    by (simp add: calibrated_node_def example_frame_def two_markers_def Let_def
        to_string_def string_of_nat.simps digit_char_def)
qed

subsection \<open>C9: the reads of the distortion coefficients\<close>

text \<open>
  Claim C9 asks that every read of \<^verbatim>\<open>msg->d\<close> be in bounds. The copy loop reads below
  \<^verbatim>\<open>d.size()\<close> only, but the log statement of the first message reads indices 0 to 4
  whatever the size: by \<open>camera_info_callback_faults_iff\<close> the callback faults exactly
  on a first message with fewer than five coefficients. For the default node and a
  first message without coefficients, which lines 74 and 75 provide for, all five reads
  are out of bounds.
\<close>

theorem first_calibration_reads_out_of_bounds:
  "camera_info_callback (snd (ArucoRos2Node default_params)) info_no_distortion =
     Inl (OutOfBounds [0, 1, 2, 3, 4])"
  by (simp add: camera_info_callback_def store_calibration_def ArucoRos2Node_def
      default_params_def info_no_distortion_def vector_at_def logged_indices_def
      get_parameter_def mat_zeros_def Let_def)

subsection \<open>C10: the stored distortion\<close>

text \<open>
  Claim C10. A calibration update with an empty distortion sequence stores the row
  (0, 0, 0, 0); an update with \<open>n\<close> coefficients, \<open>n > 0\<close>, stores a row of length \<open>n\<close>
  that agrees with the message at every index. This is the state after lines 73 to 82,
  and the state the callback leaves whenever it returns.
\<close>

theorem stored_distortion_normalised:
  "(msg_d msg = [] \<longrightarrow> camera_distortion (store_calibration n msg) = [0, 0, 0, 0]) \<and>
   (msg_d msg \<noteq> [] \<longrightarrow>
      length (camera_distortion (store_calibration n msg)) = length (msg_d msg) \<and>
      (\<forall>i < length (msg_d msg).
         camera_distortion (store_calibration n msg) ! i = msg_d msg ! i)) \<and>
   (\<forall>tr n'. camera_info_callback n msg = Inr (tr, n') \<longrightarrow>
      camera_distortion n' = camera_distortion (store_calibration n msg))"
  using camera_info_callback_returns [of n msg]
  by (simp add: camera_distortion_store_calibration)

text \<open>
  Claim C10 at a later message without coefficients, which stores four zeros and
  returns, and at a first message with five coefficients, which are stored as sent.
\<close>

theorem stored_distortion_normalised_witness:
  "camera_distortion (store_calibration calibrated_node info_no_distortion) = [0, 0, 0, 0] \<and>
   camera_info_callback calibrated_node info_no_distortion =
     Inr ([], store_calibration calibrated_node info_no_distortion) \<and>
   msg_d example_info \<noteq> [] \<and>
   length (camera_distortion (store_calibration (snd (ArucoRos2Node default_params))
      example_info)) = 5 \<and>
   camera_distortion (store_calibration (snd (ArucoRos2Node default_params)) example_info) ! 1
     = - (1 / 5)"
  using stored_distortion_normalised [of info_no_distortion calibrated_node]
    stored_distortion_normalised [of example_info "snd (ArucoRos2Node default_params)"]
  by (simp add: info_no_distortion_def example_info_def camera_info_callback_def
      received_store_calibration calibrated_node_def Let_def)

end
